theory Spec2Isabelle
  imports Complex_Main "HOL-Library.Word"
begin

section \<open>Numeric types of the program\<close>

text \<open>
  Modelled from the spec: the declaration of \<^verbatim>\<open>internal.TicksDuration\<close> is not among the
  sources (only the alias \<^verbatim>\<open>type TicksDuration = internal.TicksDuration\<close> in misc.go is).
  The spec calls it a "non-negative integer count of ticks", and the channel stores the
  constant \<^verbatim>\<open>maxUint32 = 0xFFFF_FFFF\<close> in it as the largest duration, so it is taken to
  be Go's \<^verbatim>\<open>uint32\<close>: arithmetic wraps around modulo \<open>2 ^ 32\<close>.
\<close>

type_synonym TicksDuration = "32 word"

definition maxUint32 :: TicksDuration where
  "maxUint32 = 0xFFFFFFFF"

text \<open>
  A Go \<^verbatim>\<open>float64\<close> is a not-a-number, an infinity or a finite number. A finite number is
  modelled by the real it denotes and the arithmetic on finite numbers by the exact
  arithmetic of the reals: rounding to 53 bits, overflow to an infinity and the sign of
  zero are not modelled. The conversion of a 32-bit tick count to \<^verbatim>\<open>float64\<close> is exact, and
  in the scenarios with exact expected values every number is a small integer or a half,
  which \<^verbatim>\<open>float64\<close> represents exactly.
\<close>

datatype float64 = NaN | PInf | NInf | Fin real

fun IsNaN :: "float64 \<Rightarrow> bool" where
  "IsNaN NaN = True"
| "IsNaN _ = False"

fun f_add :: "float64 \<Rightarrow> float64 \<Rightarrow> float64" where
  "f_add NaN _ = NaN"
| "f_add _ NaN = NaN"
| "f_add PInf NInf = NaN"
| "f_add NInf PInf = NaN"
| "f_add PInf _ = PInf"
| "f_add _ PInf = PInf"
| "f_add NInf _ = NInf"
| "f_add _ NInf = NInf"
| "f_add (Fin a) (Fin b) = Fin (a + b)"

fun f_neg :: "float64 \<Rightarrow> float64" where
  "f_neg NaN = NaN"
| "f_neg PInf = NInf"
| "f_neg NInf = PInf"
| "f_neg (Fin a) = Fin (- a)"

definition f_sub :: "float64 \<Rightarrow> float64 \<Rightarrow> float64" where
  "f_sub x y = f_add x (f_neg y)"

text \<open>IEEE comparisons: every ordered comparison with a NaN is false, and NaN is unequal
  to everything, itself included.\<close>

fun f_lt :: "float64 \<Rightarrow> float64 \<Rightarrow> bool" where
  "f_lt NaN _ = False"
| "f_lt _ NaN = False"
| "f_lt PInf _ = False"
| "f_lt _ NInf = False"
| "f_lt NInf _ = True"
| "f_lt _ PInf = True"
| "f_lt (Fin a) (Fin b) = (a < b)"

definition f_gt :: "float64 \<Rightarrow> float64 \<Rightarrow> bool" where
  "f_gt x y = f_lt y x"

fun f_eq :: "float64 \<Rightarrow> float64 \<Rightarrow> bool" where
  "f_eq NaN _ = False"
| "f_eq _ NaN = False"
| "f_eq x y = (x = y)"

definition f_ne :: "float64 \<Rightarrow> float64 \<Rightarrow> bool" where
  "f_ne x y = (\<not> f_eq x y)"

text \<open>Division. An infinity divided by an infinity and zero divided by zero are NaN; a
  non-zero number divided by zero is an infinity (the zero is taken to be positive).\<close>

fun f_div :: "float64 \<Rightarrow> float64 \<Rightarrow> float64" where
  "f_div NaN _ = NaN"
| "f_div _ NaN = NaN"
| "f_div (Fin a) (Fin b) =
     (if b = 0 then (if a = 0 then NaN else if 0 < a then PInf else NInf) else Fin (a / b))"
| "f_div (Fin a) _ = Fin 0"
| "f_div PInf (Fin b) = (if b < 0 then NInf else PInf)"
| "f_div NInf (Fin b) = (if b < 0 then PInf else NInf)"
| "f_div _ _ = NaN"

text \<open>\<^verbatim>\<open>math.Floor\<close>, \<^verbatim>\<open>math.Ceil\<close>, \<^verbatim>\<open>math.Min\<close> and \<^verbatim>\<open>math.Max\<close> of Go's standard library,
  with their documented special cases (an infinity wins over a NaN in Min and Max).\<close>

fun Floor :: "float64 \<Rightarrow> float64" where
  "Floor (Fin a) = Fin (of_int \<lfloor>a\<rfloor>)"
| "Floor x = x"

fun Ceil :: "float64 \<Rightarrow> float64" where
  "Ceil (Fin a) = Fin (of_int \<lceil>a\<rceil>)"
| "Ceil x = x"

definition f_min :: "float64 \<Rightarrow> float64 \<Rightarrow> float64" where
  "f_min x y =
     (if x = NInf \<or> y = NInf then NInf
      else if IsNaN x \<or> IsNaN y then NaN
      else if f_lt x y then x else y)"

definition f_max :: "float64 \<Rightarrow> float64 \<Rightarrow> float64" where
  "f_max x y =
     (if x = PInf \<or> y = PInf then PInf
      else if IsNaN x \<or> IsNaN y then NaN
      else if f_gt x y then x else y)"

text \<open>
  Go's \<^verbatim>\<open>int\<close> is modelled by the unbounded integers; no integer arithmetic of the modelled
  code can overflow 64 bits. The conversion \<^verbatim>\<open>int(x)\<close> of a float truncates towards zero;
  for a NaN, an infinity or a number outside 64 bits Go leaves the result to the
  implementation, which is the parameter \<open>undef\<close>.
\<close>

definition float_of_int :: "int \<Rightarrow> float64" where
  "float_of_int i = Fin (of_int i)"

definition int_of_float :: "(float64 \<Rightarrow> int) \<Rightarrow> float64 \<Rightarrow> int" where
  "int_of_float undef x =
     (case x of
        Fin a \<Rightarrow>
          (let t = (if 0 \<le> a then \<lfloor>a\<rfloor> else \<lceil>a\<rceil>)
           in if - (2 ^ 63) \<le> t \<and> t < 2 ^ 63 then t else undef x)
      | _ \<Rightarrow> undef x)"

text \<open>
  Go's conversion \<^verbatim>\<open>TicksDuration(x)\<close> of a float discards the fraction (truncation towards
  zero). The result for a value outside the range of the type is implementation-dependent;
  the channel only converts values between 0 and a tick count (lemma
  \<open>reparam_in_range\<close> below), where the reduction modulo \<open>2 ^ 32\<close> done by
  \<open>word_of_int\<close> is the identity.
\<close>

definition ticks_of_float :: "real \<Rightarrow> TicksDuration" where
  "ticks_of_float x = word_of_int (if 0 \<le> x then \<lfloor>x\<rfloor> else \<lceil>x\<rceil>)"

definition float_of_ticks :: "TicksDuration \<Rightarrow> real" where
  "float_of_ticks t = real (unat t)"


section \<open>Shaker strategies\<close>

text \<open>
  \<^verbatim>\<open>shaker.Shaker\<close> is an interface with the single method
  \<^verbatim>\<open>GetShakeOffsets(level float64) (float64, float64)\<close>; implementations keep internal
  state between calls. An object is modelled by its behaviour: a call returns the two
  offsets and the object as it is after the call. Each binding of a strategy is an
  object of its own; one object bound in two places would share its internal state,
  which only shows in the offsets it returns.
\<close>

codatatype Shaker =
  Shaker (GetShakeOffsets: "float64 \<Rightarrow> (float64 \<times> float64) \<times> Shaker")


section \<open>The shaker channel (controller_shaker_channel.go)\<close>

record shakerChannel =
  shaker :: "Shaker option"
  elapsed :: TicksDuration
  fadeIn :: TicksDuration
  duration :: TicksDuration
  fadeOut :: TicksDuration
  offsetX :: float64
  offsetY :: float64
  wasActive :: bool

text \<open>The zero value \<^verbatim>\<open>shakerChannel{}\<close> and the literal \<^verbatim>\<open>shakerChannel{shaker: s}\<close>.\<close>

definition zeroChannel :: shakerChannel where
  "zeroChannel = \<lparr>shaker = None, elapsed = 0, fadeIn = 0, duration = 0, fadeOut = 0,
     offsetX = Fin 0, offsetY = Fin 0, wasActive = False\<rparr>"

definition newChannel :: "Shaker option \<Rightarrow> shakerChannel" where
  "newChannel s = zeroChannel\<lparr>shaker := s\<rparr>"

definition Activity :: "shakerChannel \<Rightarrow> real" where
  "Activity self =
     (if elapsed self = 0 then 0
      else if elapsed self < fadeIn self
        then float_of_ticks (elapsed self) / float_of_ticks (fadeIn self)
      else
        (let e = elapsed self - fadeIn self in
         if e \<le> duration self then 1
         else
           (let e' = e - duration self in
            if e' \<ge> fadeOut self then 0
            else 1 - float_of_ticks e' / float_of_ticks (fadeOut self))))"

definition IsFadingIn :: "shakerChannel \<Rightarrow> bool" where
  "IsFadingIn self = (elapsed self > 0 \<and> elapsed self \<le> fadeIn self)"

definition IsFadingOut :: "shakerChannel \<Rightarrow> bool" where
  "IsFadingOut self =
     (let toFadeOut = fadeIn self + duration self in
      elapsed self \<ge> toFadeOut \<and> elapsed self < toFadeOut + fadeOut self)"

definition IsShaking :: "shakerChannel \<Rightarrow> bool" where
  "IsShaking self =
     (if elapsed self = 0 then fadeIn self > 0 \<or> duration self > 0
      else if elapsed self < duration self then True
      else elapsed self < fadeIn self + duration self + fadeOut self)"

definition Start :: "TicksDuration \<Rightarrow> shakerChannel \<Rightarrow> shakerChannel" where
  "Start fadeIn' self =
     (if fadeIn self = fadeIn' \<and> IsFadingIn self then self
      else
        (let activity = Activity self in
         self\<lparr>fadeIn := fadeIn', duration := maxUint32, fadeOut := 0,
              elapsed := ticks_of_float (float_of_ticks fadeIn' * activity)\<rparr>))"

definition End :: "TicksDuration \<Rightarrow> shakerChannel \<Rightarrow> shakerChannel" where
  "End fadeOut' self =
     (if fadeOut self = fadeOut' \<and> IsFadingOut self then self
      else
        (let activity = Activity self;
             self1 = self\<lparr>duration := elapsed self - fadeIn self\<rparr>;
             self2 = self1\<lparr>fadeOut := fadeOut'\<rparr>;
             self3 = self2\<lparr>elapsed := fadeIn self2 + duration self2\<rparr>
         in self3\<lparr>elapsed := elapsed self3
                     + ticks_of_float (float_of_ticks fadeOut' * (1 - activity))\<rparr>))"

definition Trigger ::
  "TicksDuration \<Rightarrow> TicksDuration \<Rightarrow> TicksDuration \<Rightarrow> shakerChannel \<Rightarrow> shakerChannel" where
  "Trigger fadeIn' duration' fadeOut' self =
     (Start fadeIn' self)\<lparr>duration := duration', fadeOut := fadeOut'\<rparr>"

text \<open>
  The part of \<^verbatim>\<open>Update\<close> after the strategy has been chosen. It returns the channel and
  the strategy object after the call.
\<close>

definition UpdateWith :: "Shaker \<Rightarrow> 64 word \<Rightarrow> shakerChannel \<Rightarrow> shakerChannel \<times> Shaker" where
  "UpdateWith selfShaker tickRate self =
     (if IsShaking self then
        (let self1 = self\<lparr>wasActive := True\<rparr>;
             r = GetShakeOffsets selfShaker (Fin (Activity self1))
         in (self1\<lparr>offsetX := fst (fst r), offsetY := snd (fst r),
                   elapsed := elapsed self1 + ucast tickRate\<rparr>, snd r))
      else if wasActive self then
        (let r = GetShakeOffsets selfShaker (Fin 0);
             self1 = (if f_ne (offsetX self) (Fin 0) \<or> f_ne (offsetY self) (Fin 0)
                      then self\<lparr>offsetX := Fin 0, offsetY := Fin 0\<rparr> else self)
         in (self1\<lparr>wasActive := False\<rparr>, snd r))
      else (self, selfShaker))"

text \<open>
  \<^verbatim>\<open>Update(index, tickRate)\<close>. The package variable \<^verbatim>\<open>defaultShaker\<close> is passed in and
  returned as the second component of the state; \<open>newRandom\<close> stands for the value
  \<^verbatim>\<open>&shaker.Random{}\<close>, whose type is not among the sources. The object after the call
  replaces the one that was called.
\<close>

definition Update ::
  "Shaker \<Rightarrow> int \<Rightarrow> 64 word \<Rightarrow> shakerChannel \<times> Shaker option \<Rightarrow> shakerChannel \<times> Shaker option"
  where
  "Update newRandom index tickRate st =
     (let self = fst st; dflt = snd st in
      case shaker self of
        None \<Rightarrow>
          if index \<noteq> 0 then (self, dflt)
          else
            (let selfShaker = (case dflt of None \<Rightarrow> newRandom | Some d \<Rightarrow> d);
                 r = UpdateWith selfShaker tickRate self
             in (fst r, Some (snd r)))
      | Some selfShaker \<Rightarrow>
          (let r = UpdateWith selfShaker tickRate self
           in ((fst r)\<lparr>shaker := Some (snd r)\<rparr>, dflt)))"

text \<open>Sequences of calls on one channel.\<close>

datatype channelCall =
    CallStart TicksDuration
  | CallEnd TicksDuration
  | CallTrigger TicksDuration TicksDuration TicksDuration
  | CallUpdate int "64 word"

fun applyCall ::
  "Shaker \<Rightarrow> channelCall \<Rightarrow> shakerChannel \<times> Shaker option \<Rightarrow> shakerChannel \<times> Shaker option"
  where
  "applyCall newRandom (CallStart fi) st = (Start fi (fst st), snd st)"
| "applyCall newRandom (CallEnd fo) st = (End fo (fst st), snd st)"
| "applyCall newRandom (CallTrigger fi d fo) st = (Trigger fi d fo (fst st), snd st)"
| "applyCall newRandom (CallUpdate index tickRate) st = Update newRandom index tickRate st"

fun runCalls ::
  "Shaker \<Rightarrow> channelCall list \<Rightarrow> shakerChannel \<times> Shaker option \<Rightarrow> shakerChannel \<times> Shaker option"
  where
  "runCalls newRandom [] st = st"
| "runCalls newRandom (c # cs) st = runCalls newRandom cs (applyCall newRandom c st)"


section \<open>Panics, slices and rectangles\<close>

text \<open>A call either returns or panics: \<open>Panic\<close> carries the message of an explicit
  \<^verbatim>\<open>panic(...)\<close>, the other two are the run-time panics of indexing and of dereferencing
  a nil pointer.\<close>

datatype panic = Panic string | IndexOutOfRange | NilDereference

definition bindE :: "panic + 'a \<Rightarrow> ('a \<Rightarrow> panic + 'b) \<Rightarrow> panic + 'b" where
  "bindE m f = (case m of Inl e \<Rightarrow> Inl e | Inr x \<Rightarrow> f x)"

text \<open>
  A Go slice is a window of length \<open>len\<close> on a backing array. \<open>backing\<close> holds the
  array from the first element of the slice to the end of its capacity, so the capacity
  is \<open>length (backing s)\<close> and the elements are the first \<open>len s\<close> of it. The bank of
  channels is the only reference to its array, so no other slice shares it.
\<close>

record 'a slice =
  backing :: "'a list"
  len :: nat

definition cap :: "'a slice \<Rightarrow> nat" where
  "cap s = length (backing s)"

definition elems :: "'a slice \<Rightarrow> 'a list" where
  "elems s = take (len s) (backing s)"

text \<open>\<^verbatim>\<open>make([]T, n)\<close>, with \<open>z\<close> the zero value of the element type.\<close>

definition make_slice :: "'a \<Rightarrow> nat \<Rightarrow> 'a slice" where
  "make_slice z n = \<lparr>backing = replicate n z, len = n\<rparr>"

text \<open>\<^verbatim>\<open>s[i]\<close> and \<^verbatim>\<open>s[i] = x\<close>: an index outside \<open>0 \<le> i < len s\<close> panics.\<close>

definition index_at :: "'a slice \<Rightarrow> int \<Rightarrow> panic + 'a" where
  "index_at s i = (if 0 \<le> i \<and> i < int (len s) then Inr (backing s ! nat i) else Inl IndexOutOfRange)"

definition index_store :: "'a slice \<Rightarrow> int \<Rightarrow> 'a \<Rightarrow> panic + 'a slice" where
  "index_store s i x =
     (if 0 \<le> i \<and> i < int (len s) then Inr (s\<lparr>backing := (backing s)[nat i := x]\<rparr>)
      else Inl IndexOutOfRange)"

text \<open>\<^verbatim>\<open>s[:n]\<close>: the bound may exceed the length, but not the capacity.\<close>

definition reslice :: "'a slice \<Rightarrow> int \<Rightarrow> panic + 'a slice" where
  "reslice s n =
     (if 0 \<le> n \<and> n \<le> int (cap s) then Inr (s\<lparr>len := nat n\<rparr>) else Inl IndexOutOfRange)"

text \<open>
  \<^verbatim>\<open>append(s, xs...)\<close>. Within the capacity the elements are written into the backing
  array. Otherwise a new array is allocated, the old elements are copied and the rest of
  the new array holds zero values; how much room the run-time system adds is its own
  choice, the parameter \<open>grow\<close> (from the old capacity and the length needed), and the
  new capacity is at least the length needed.
\<close>

definition append_slice :: "(nat \<Rightarrow> nat \<Rightarrow> nat) \<Rightarrow> 'a \<Rightarrow> 'a slice \<Rightarrow> 'a list \<Rightarrow> 'a slice" where
  "append_slice grow z s xs =
     (let n = len s + length xs in
      if n \<le> cap s
      then \<lparr>backing = take (len s) (backing s) @ xs @ drop n (backing s), len = n\<rparr>
      else \<lparr>backing = take (len s) (backing s) @ xs
                       @ replicate (max n (grow (cap s) n) - n) z, len = n\<rparr>)"

text \<open>\<^verbatim>\<open>setAt\<close> of misc.go, with its four cases in the order of the source.\<close>

definition setAt ::
  "(nat \<Rightarrow> nat \<Rightarrow> nat) \<Rightarrow> 'a \<Rightarrow> 'a slice \<Rightarrow> 'a \<Rightarrow> int \<Rightarrow> panic + 'a slice" where
  "setAt grow z s element index =
     (if index < int (len s) then index_store s index element
      else if index = int (len s) then Inr (append_slice grow z s [element])
      else if index < int (cap s) then
        bindE (reslice s (index + 1)) (\<lambda>s. index_store s index element)
      else
        bindE (reslice s (int (cap s))) (\<lambda>s.
          let growth = (index + 1) - int (len s) in
          if growth = 1 then Inr (append_slice grow z s [element])
          else index_store (append_slice grow z s (replicate (nat growth) z)) index element))"

text \<open>\<^verbatim>\<open>image.Rectangle\<close> with its two corner points, and \<^verbatim>\<open>image.Rect\<close>, which orders the
  coordinates of each axis.\<close>

record Rectangle =
  MinPt :: "int \<times> int"
  MaxPt :: "int \<times> int"

definition Rect :: "int \<Rightarrow> int \<Rightarrow> int \<Rightarrow> int \<Rightarrow> Rectangle" where
  "Rect x0 y0 x1 y1 =
     \<lparr>MinPt = (if x0 > x1 then x1 else x0, if y0 > y1 then y1 else y0),
      MaxPt = (if x0 > x1 then x0 else x1, if y0 > y1 then y0 else y1)\<rparr>"


section \<open>Tracker and zoomer strategies\<close>

text \<open>
  \<^verbatim>\<open>tracker.Tracker\<close> has the method
  \<^verbatim>\<open>Update(currentX, currentY, targetX, targetY, prevSpeedX, prevSpeedY) (float64, float64)\<close>.
  As for shakers, an object is its behaviour, and each call also gives the object after
  the call.
\<close>

codatatype Tracker =
  Tracker (trackerUpdate:
    "float64 \<Rightarrow> float64 \<Rightarrow> float64 \<Rightarrow> float64 \<Rightarrow> float64 \<Rightarrow> float64 \<Rightarrow> (float64 \<times> float64) \<times> Tracker")

text \<open>
  Modelled from the spec: the package \<^verbatim>\<open>zoomer\<close> with the interface \<^verbatim>\<open>zoomer.Zoomer\<close> is
  not among the sources. The spec gives the contract "\<^verbatim>\<open>Update(current, target) -> delta\<close>",
  and the controller also calls \<^verbatim>\<open>Reset()\<close> on a zoomer.
\<close>

codatatype Zoomer =
  Zoomer (zoomerUpdate: "float64 \<Rightarrow> float64 \<Rightarrow> float64 \<times> Zoomer") (zoomerReset: Zoomer)

text \<open>The stateless built-in trackers \<^verbatim>\<open>tracker.Frozen\<close> and \<^verbatim>\<open>tracker.Instant\<close>.\<close>

primcorec Frozen :: Tracker where
  "trackerUpdate Frozen =
     (\<lambda>currentX currentY targetX targetY prevSpeedX prevSpeedY. ((Fin 0, Fin 0), Frozen))"

primcorec Instant :: Tracker where
  "trackerUpdate Instant =
     (\<lambda>currentX currentY targetX targetY prevSpeedX prevSpeedY.
        ((f_sub targetX currentX, f_sub targetY currentY), Instant))"


section \<open>Best-fit scale (package internal)\<close>

text \<open>The pointer arguments are options; dereferencing nil panics. In the conditions of
  the dynamic branch Go evaluates the left operand of \<^verbatim>\<open>||\<close> first and the right one only
  when the left one is false.\<close>

definition deref :: "'a option \<Rightarrow> panic + 'a" where
  "deref ptr = (case ptr of None \<Rightarrow> Inl NilDereference | Some v \<Rightarrow> Inr v)"

definition BestFitFloat ::
  "(float64 \<Rightarrow> int) \<Rightarrow> bool \<Rightarrow> int \<Rightarrow> int \<Rightarrow> float64 \<Rightarrow> float64 option \<Rightarrow> float64 option
     \<Rightarrow> float64 option \<Rightarrow> bool \<Rightarrow> panic + float64" where
  "BestFitFloat undef dynamicScale layoutWidth layoutHeight renderWidth renderHeight
       contextWidth contextHeight allowBelowOne =
     (let sx = (case contextWidth of
                  None \<Rightarrow> f_div (float_of_int layoutWidth) renderWidth
                | Some cw \<Rightarrow> f_div cw renderWidth);
          rHeight = (case renderHeight of None \<Rightarrow> renderWidth | Some rh \<Rightarrow> rh);
          sy = (case contextHeight of
                  None \<Rightarrow> f_div (float_of_int layoutHeight) rHeight
                | Some ch \<Rightarrow> f_div ch rHeight);
          final = (\<lambda>sx sy.
                     if allowBelowOne then f_min sx sy else f_max (Fin 1) (f_min sx sy))
      in if dynamicScale then
           bindE (deref contextWidth) (\<lambda>cw.
           let sx = (if layoutWidth < int_of_float undef cw
                        \<or> layoutWidth < int_of_float undef renderWidth
                     then f_div (float_of_int layoutWidth) renderWidth else sx)
           in bindE (deref contextHeight) (\<lambda>ch.
              bindE (deref renderHeight) (\<lambda>rh.
              let sy = (if layoutHeight < int_of_float undef ch
                           \<or> layoutHeight < int_of_float undef rh
                        then f_div (float_of_int layoutHeight) rh else sy)
              in Inr (final sx sy))))
         else Inr (final sx sy))"


section \<open>The controller (controller_camera.go and the controller's core file)\<close>

text \<open>
  What the environment supplies: \<open>floatToInt\<close> and \<open>growCap\<close> are the two
  implementation-dependent choices described above, \<open>tps\<close> is the value of
  \<^verbatim>\<open>ebiten.TPS()\<close>, and the last three are the freshly constructed default strategies
  \<^verbatim>\<open>&shaker.Random{}\<close>, \<^verbatim>\<open>&zoomer.Quadratic{}\<close> and the configured \<^verbatim>\<open>&tracker.SpringTailer{}\<close>,
  whose packages are not among the sources.
\<close>

record platform =
  floatToInt :: "float64 \<Rightarrow> int"
  growCap :: "nat \<Rightarrow> nat \<Rightarrow> nat"
  tps :: int
  randomShaker :: Shaker
  quadraticZoomer :: Zoomer
  springTailer :: Tracker

text \<open>The fields of \<^verbatim>\<open>controller\<close> that the camera code reads or writes. The game, the
  queued draws, the canvases, the shaders and the debug fields are left out.\<close>

record controller =
  logicalWidth :: int
  logicalHeight :: int
  hiResWidth :: int
  hiResHeight :: int
  inDraw :: bool
  redrawManaged :: bool
  needsRedraw :: bool
  stretchingEnabled :: bool
  keepAspectRatio :: bool
  dynamicScaling :: bool
  bestFitRenderSize :: "float64 \<times> float64"
  bestFitContextSize :: "float64 \<times> float64"
  lastFlushCoordinatesTick :: "64 word"
  cameraArea :: Rectangle
  tracker :: "Tracker option"
  trackerCurrentX :: float64
  trackerCurrentY :: float64
  trackerTargetX :: float64
  trackerTargetY :: float64
  trackerPrevSpeedX :: float64
  trackerPrevSpeedY :: float64
  zoomer :: "Zoomer option"
  zoomCurrent :: float64
  zoomTarget :: float64
  shakerChannels :: "shakerChannel slice"
  shakerOffsetX :: float64
  shakerOffsetY :: float64
  currentTick :: "64 word"
  tickRate :: "64 word"

text \<open>The package-level variables the camera code writes.\<close>

record globals =
  defaultZoomer :: "Zoomer option"
  defaultTracker :: "Tracker option"
  defaultShaker :: "Shaker option"
  CurrentZoom :: float64
  BridgedCameraOrigin :: "int \<times> int"
  BridgedLogicalWidth :: int
  BridgedLogicalHeight :: int

type_synonym state = "controller \<times> globals"

definition cameraAreaGet :: "controller \<Rightarrow> Rectangle" where
  "cameraAreaGet self = cameraArea self"

definition cameraAreaF64 ::
  "platform \<Rightarrow> controller \<Rightarrow> panic + (float64 \<times> float64 \<times> float64 \<times> float64)" where
  "cameraAreaF64 p self =
     bindE
       (if stretchingEnabled self \<and> keepAspectRatio self then
          bindE (BestFitFloat (floatToInt p) (dynamicScaling self)
                   (hiResWidth self) (hiResHeight self)
                   (fst (bestFitRenderSize self)) (Some (snd (bestFitRenderSize self)))
                   (Some (fst (bestFitContextSize self))) (Some (snd (bestFitContextSize self)))
                   True)
            (\<lambda>scale. Inr
               (f_div (f_div (float_of_int (hiResWidth self)) scale) (zoomCurrent self),
                f_div (f_div (float_of_int (hiResHeight self)) scale) (zoomCurrent self)))
        else Inr (f_div (float_of_int (logicalWidth self)) (zoomCurrent self),
                  f_div (float_of_int (logicalHeight self)) (zoomCurrent self)))
       (\<lambda>zoomed.
          let zoomedWidth = fst zoomed; zoomedHeight = snd zoomed;
              minX = f_add (f_sub (trackerCurrentX self) (f_div zoomedWidth (Fin 2)))
                           (shakerOffsetX self);
              minY = f_add (f_sub (trackerCurrentY self) (f_div zoomedHeight (Fin 2)))
                           (shakerOffsetY self)
          in Inr (minX, minY, f_add minX zoomedWidth, f_add minY zoomedHeight))"

definition updateCameraArea :: "platform \<Rightarrow> state \<Rightarrow> panic + state" where
  "updateCameraArea p st =
     bindE (cameraAreaF64 p (fst st)) (\<lambda>(minX, minY, maxX, maxY).
       let area = Rect (int_of_float (floatToInt p) (Floor minX))
                       (int_of_float (floatToInt p) (Floor minY))
                       (int_of_float (floatToInt p) (Ceil maxX))
                       (int_of_float (floatToInt p) (Ceil maxY))
       in Inr ((fst st)\<lparr>cameraArea := area\<rparr>, (snd st)\<lparr>BridgedCameraOrigin := MinPt area\<rparr>))"

definition cameraSetTracker :: "Tracker option \<Rightarrow> state \<Rightarrow> panic + state" where
  "cameraSetTracker t st =
     (if inDraw (fst st) then Inl (Panic ''can't set tracker during draw stage'')
      else Inr ((fst st)\<lparr>tracker := t\<rparr>, snd st))"

definition cameraNotifyCoordinates :: "float64 \<Rightarrow> float64 \<Rightarrow> state \<Rightarrow> panic + state" where
  "cameraNotifyCoordinates x y st =
     (if inDraw (fst st)
      then Inl (Panic ''can't notify tracking coordinates during draw stage'')
      else Inr ((fst st)\<lparr>trackerTargetX := x, trackerTargetY := y\<rparr>, snd st))"

text \<open>\<^verbatim>\<open>updateTracking\<close>, with \<^verbatim>\<open>cameraGetInternalTracker\<close> inlined: the bound tracker, or the
  package default, constructed on first use. The object after the call replaces the one
  that was called.\<close>

definition updateTracking :: "platform \<Rightarrow> state \<Rightarrow> state" where
  "updateTracking p st =
     (let self = fst st; g = snd st;
          camTracker = (case tracker self of
                          Some t \<Rightarrow> t
                        | None \<Rightarrow> (case defaultTracker g of
                                     None \<Rightarrow> springTailer p | Some t \<Rightarrow> t));
          r = trackerUpdate camTracker
                (trackerCurrentX self) (trackerCurrentY self)
                (trackerTargetX self) (trackerTargetY self)
                (trackerPrevSpeedX self) (trackerPrevSpeedY self);
          changeX = fst (fst r); changeY = snd (fst r);
          self1 = (case tracker self of Some t \<Rightarrow> self\<lparr>tracker := Some (snd r)\<rparr> | None \<Rightarrow> self);
          g1 = (case tracker self of Some t \<Rightarrow> g | None \<Rightarrow> g\<lparr>defaultTracker := Some (snd r)\<rparr>);
          updateDelta = f_div (Fin 1) (float_of_int (tps p));
          self2 = self1\<lparr>trackerCurrentX := f_add (trackerCurrentX self) changeX,
                        trackerCurrentY := f_add (trackerCurrentY self) changeY,
                        trackerPrevSpeedX := f_div changeX updateDelta,
                        trackerPrevSpeedY := f_div changeY updateDelta\<rparr>
      in (if redrawManaged self2
             \<and> (f_ne (trackerPrevSpeedX self2) (Fin 0) \<or> f_ne (trackerPrevSpeedY self2) (Fin 0))
          then self2\<lparr>needsRedraw := True\<rparr> else self2, g1))"

text \<open>\<^verbatim>\<open>cameraGetInternalZoomer\<close>: the bound zoomer, or the package default, constructed
  and reset on first use. It returns the zoomer and the globals.\<close>

definition cameraGetInternalZoomer :: "platform \<Rightarrow> state \<Rightarrow> Zoomer \<times> globals" where
  "cameraGetInternalZoomer p st =
     (case zoomer (fst st) of
        Some z \<Rightarrow> (z, snd st)
      | None \<Rightarrow>
          (case defaultZoomer (snd st) of
             None \<Rightarrow> (let z = zoomerReset (quadraticZoomer p)
                       in (z, (snd st)\<lparr>defaultZoomer := Some z\<rparr>))
           | Some z \<Rightarrow> (z, snd st)))"

text \<open>Writing back the zoomer object after a call on it.\<close>

definition putInternalZoomer :: "Zoomer \<Rightarrow> state \<Rightarrow> state" where
  "putInternalZoomer z st =
     (case zoomer (fst st) of
        Some z0 \<Rightarrow> ((fst st)\<lparr>zoomer := Some z\<rparr>, snd st)
      | None \<Rightarrow> (fst st, (snd st)\<lparr>defaultZoomer := Some z\<rparr>))"

definition updateZoom :: "platform \<Rightarrow> state \<Rightarrow> panic + state" where
  "updateZoom p st =
     (let zg = cameraGetInternalZoomer p st;
          r = zoomerUpdate (fst zg) (zoomCurrent (fst st)) (zoomTarget (fst st));
          change = fst r;
          st1 = putInternalZoomer (snd r) (fst st, snd zg)
      in if IsNaN change then Inl (Panic ''zoomer returned NaN'')
         else
           (let new = f_add (zoomCurrent (fst st1)) change;
                self2 = (fst st1)\<lparr>zoomCurrent := new\<rparr>;
                g2 = (snd st1)\<lparr>CurrentZoom := new\<rparr>
            in if f_lt (zoomCurrent self2) (Fin 0.005) \<or> f_gt (zoomCurrent self2) (Fin 500)
               then Inl (Panic ''something is wrong with the zoomer: after last update, zoom went outside [0.005, 500.0]'')
               else Inr (if redrawManaged self2 \<and> f_ne change (Fin 0)
                         then self2\<lparr>needsRedraw := True\<rparr> else self2, g2)))"

text \<open>The loop of \<^verbatim>\<open>updateShake\<close> over the channels of the bank, from index \<open>i\<close> on: it
  returns the updated channels, the default shaker and the two sums.\<close>

fun updateShakeLoop ::
  "Shaker \<Rightarrow> 64 word \<Rightarrow> int \<Rightarrow> shakerChannel list \<Rightarrow> Shaker option \<Rightarrow> float64 \<Rightarrow> float64
     \<Rightarrow> shakerChannel list \<times> Shaker option \<times> float64 \<times> float64" where
  "updateShakeLoop rnd rate i [] dflt offX offY = ([], dflt, offX, offY)"
| "updateShakeLoop rnd rate i (c # cs) dflt offX offY =
     (let r = Update rnd i rate (c, dflt);
          rest = updateShakeLoop rnd rate (i + 1) cs (snd r)
                   (f_add offX (offsetX (fst r))) (f_add offY (offsetY (fst r)))
      in (fst r # fst rest, snd rest))"

definition updateShake :: "platform \<Rightarrow> state \<Rightarrow> state" where
  "updateShake p st =
     (let self = fst st; g = snd st; bank = shakerChannels self;
          r = updateShakeLoop (randomShaker p) (tickRate self) 0 (elems bank)
                (defaultShaker g) (Fin 0) (Fin 0);
          offX = fst (snd (snd r)); offY = snd (snd (snd r));
          self1 = self\<lparr>shakerChannels := bank\<lparr>backing := fst r @ drop (len bank) (backing bank)\<rparr>\<rparr>;
          self2 = (if redrawManaged self1
                      \<and> (f_ne offX (shakerOffsetX self1) \<or> f_ne offY (shakerOffsetY self1))
                   then self1\<lparr>needsRedraw := True\<rparr> else self1)
      in (self2\<lparr>shakerOffsetX := offX, shakerOffsetY := offY\<rparr>,
          g\<lparr>defaultShaker := fst (snd r)\<rparr>))"

definition cameraFlushCoordinates :: "platform \<Rightarrow> state \<Rightarrow> panic + state" where
  "cameraFlushCoordinates p st =
     (if lastFlushCoordinatesTick (fst st) = currentTick (fst st) then Inr st
      else
        bindE (updateZoom p ((fst st)\<lparr>lastFlushCoordinatesTick := currentTick (fst st)\<rparr>, snd st))
          (\<lambda>st1. updateCameraArea p (updateShake p (updateTracking p st1))))"


text \<open>A shaker channel identifier, \<^verbatim>\<open>shaker.Channel\<close>, is a \<^verbatim>\<open>uint8\<close>; a variadic parameter is
  a list.\<close>

type_synonym Channel = "8 word"

text \<open>The loop "compact nils at the end of the slice": it runs from index \<open>i\<close> down to 1
  and stops at the first channel with a shaker.\<close>

fun compactLoop :: "shakerChannel list \<Rightarrow> nat \<Rightarrow> nat" where
  "compactLoop chans 0 = 0"
| "compactLoop chans (Suc i) =
     (if shaker (chans ! Suc i) \<noteq> None then 0 else compactLoop chans i + 1)"

definition cameraSetShaker ::
  "platform \<Rightarrow> Shaker option \<Rightarrow> Channel list \<Rightarrow> state \<Rightarrow> panic + state" where
  "cameraSetShaker p newShaker channels st =
     (let self = fst st in
      if inDraw self then Inl (Panic ''can't SetShaker during draw stage'')
      else if length channels > 1
        then Inl (Panic ''can't pass multiple shaker channels to SetShaker'')
      else if length channels = 0 then
        bindE (index_at (shakerChannels self) 0) (\<lambda>c.
        bindE (index_store (shakerChannels self) 0 (c\<lparr>shaker := newShaker\<rparr>)) (\<lambda>bank.
        Inr (self\<lparr>shakerChannels := bank\<rparr>, snd st)))
      else
        (let index = int (unat (hd channels)) in
         if newShaker = None \<and> index \<ge> int (len (shakerChannels self)) then Inr st
         else
           bindE (setAt (growCap p) zeroChannel (shakerChannels self) (newChannel newShaker) index)
             (\<lambda>bank.
                let compactCount = compactLoop (backing bank) (len bank - 1) in
                if compactCount > 0 then
                  bindE (reslice bank (int (len bank) - int compactCount)) (\<lambda>bank.
                  Inr (self\<lparr>shakerChannels := bank\<rparr>, snd st))
                else Inr (self\<lparr>shakerChannels := bank\<rparr>, snd st))))"

definition cameraGetShaker :: "Channel list \<Rightarrow> controller \<Rightarrow> panic + Shaker option" where
  "cameraGetShaker channels self =
     (if length channels = 0 then
        bindE (index_at (shakerChannels self) 0) (\<lambda>c. Inr (shaker c))
      else if length channels > 1
        then Inl (Panic ''can't GetShaker for multiple shaker channels at once'')
      else if int (unat (hd channels)) \<ge> int (len (shakerChannels self)) then Inr None
      else bindE (index_at (shakerChannels self) (int (unat (hd channels))))
             (\<lambda>c. Inr (shaker c)))"

text \<open>In \<^verbatim>\<open>shakerChannelAccessible\<close> the index is only read when it is below the length,
  so the read cannot panic.\<close>

definition shakerChannelAccessible :: "Channel \<Rightarrow> controller \<Rightarrow> bool" where
  "shakerChannelAccessible channel self =
     (channel = 0
      \<or> (int (unat channel) < int (len (shakerChannels self))
          \<and> shaker (backing (shakerChannels self) ! unat channel) \<noteq> None))"

definition cameraIsShaking :: "Channel list \<Rightarrow> controller \<Rightarrow> panic + bool" where
  "cameraIsShaking channels self =
     (if length channels > 1
        then Inl (Panic ''IsShaking accepts at most one shaker channel as argument'')
      else if length channels = 0 then Inr (list_ex IsShaking (elems (shakerChannels self)))
      else if \<not> shakerChannelAccessible (hd channels) self then Inr False
      else bindE (index_at (shakerChannels self) (int (unat (hd channels))))
             (\<lambda>c. Inr (IsShaking c)))"

text \<open>\<^verbatim>\<open>self.shakerChannels[channel].M(...)\<close> for a method \<open>M\<close> of the channel.\<close>

definition onChannel ::
  "(shakerChannel \<Rightarrow> shakerChannel) \<Rightarrow> Channel \<Rightarrow> controller \<Rightarrow> panic + controller" where
  "onChannel m channel self =
     bindE (index_at (shakerChannels self) (int (unat channel))) (\<lambda>c.
     bindE (index_store (shakerChannels self) (int (unat channel)) (m c)) (\<lambda>bank.
     Inr (self\<lparr>shakerChannels := bank\<rparr>)))"

text \<open>The loop shared by \<^verbatim>\<open>cameraStartShake\<close>, \<^verbatim>\<open>cameraEndShake\<close> and
  \<^verbatim>\<open>cameraTriggerShake\<close>: each channel must be accessible.\<close>

fun eachChannel ::
  "string \<Rightarrow> (shakerChannel \<Rightarrow> shakerChannel) \<Rightarrow> Channel list \<Rightarrow> controller \<Rightarrow> panic + controller"
  where
  "eachChannel msg m [] self = Inr self"
| "eachChannel msg m (channel # channels) self =
     (if \<not> shakerChannelAccessible channel self then Inl (Panic msg)
      else bindE (onChannel m channel self) (eachChannel msg m channels))"

definition cameraStartShake :: "TicksDuration \<Rightarrow> Channel list \<Rightarrow> state \<Rightarrow> panic + state" where
  "cameraStartShake fadeIn' channels st =
     (if inDraw (fst st) then Inl (Panic ''can't StartShake during draw stage'')
      else bindE
        (if length channels = 0 then onChannel (Start fadeIn') 0 (fst st)
         else eachChannel ''can't StartShake on uninitialized channels'' (Start fadeIn')
                channels (fst st))
        (\<lambda>self. Inr (self, snd st)))"

definition cameraEndShake :: "TicksDuration \<Rightarrow> Channel list \<Rightarrow> state \<Rightarrow> panic + state" where
  "cameraEndShake fadeOut' channels st =
     (if inDraw (fst st) then Inl (Panic ''can't EndShake during draw stage'')
      else bindE
        (if length channels = 0 then onChannel (End fadeOut') 0 (fst st)
         else eachChannel ''can't EndShake on uninitialized channels'' (End fadeOut')
                channels (fst st))
        (\<lambda>self. Inr (self, snd st)))"

definition cameraTriggerShake ::
  "TicksDuration \<Rightarrow> TicksDuration \<Rightarrow> TicksDuration \<Rightarrow> Channel list \<Rightarrow> state \<Rightarrow> panic + state"
  where
  "cameraTriggerShake fadeIn' duration' fadeOut' channels st =
     (if inDraw (fst st) then Inl (Panic ''can't TriggerShake during draw stage'')
      else bindE
        (if length channels = 0 then onChannel (Trigger fadeIn' duration' fadeOut') 0 (fst st)
         else eachChannel ''can't TriggerShake on uninitialized channels''
                (Trigger fadeIn' duration' fadeOut') channels (fst st))
        (\<lambda>self. Inr (self, snd st)))"

definition cameraZoom :: "float64 \<Rightarrow> state \<Rightarrow> panic + state" where
  "cameraZoom newZoomLevel st =
     (if inDraw (fst st) then Inl (Panic ''can't zoom during draw stage'')
      else Inr ((fst st)\<lparr>zoomTarget := newZoomLevel\<rparr>, snd st))"

definition cameraZoomReset :: "platform \<Rightarrow> float64 \<Rightarrow> state \<Rightarrow> panic + state" where
  "cameraZoomReset p zoomLevel st =
     (if inDraw (fst st) then Inl (Panic ''can't reset zoom during draw stage'')
      else
        (let st1 = ((fst st)\<lparr>zoomCurrent := zoomLevel, zoomTarget := zoomLevel\<rparr>,
                    (snd st)\<lparr>CurrentZoom := zoomLevel\<rparr>);
             zg = cameraGetInternalZoomer p st1
         in Inr (putInternalZoomer (zoomerReset (fst zg)) (fst st1, snd zg))))"

definition cameraSetZoomer :: "Zoomer option \<Rightarrow> state \<Rightarrow> panic + state" where
  "cameraSetZoomer z st =
     (if inDraw (fst st) then Inl (Panic ''can't change zoomer during draw stage'')
      else Inr ((fst st)\<lparr>zoomer := z\<rparr>, snd st))"

definition setResolution :: "platform \<Rightarrow> int \<Rightarrow> int \<Rightarrow> state \<Rightarrow> panic + state" where
  "setResolution p width height st =
     (if inDraw (fst st) then Inl (Panic ''can't change resolution during draw stage'')
      else if width < 1 \<or> height < 1
        then Inl (Panic ''game resolution must be at least (1, 1)'')
      else if width \<noteq> logicalWidth (fst st) \<or> height \<noteq> logicalHeight (fst st) then
        updateCameraArea p
          ((fst st)\<lparr>needsRedraw := True, logicalWidth := width, logicalHeight := height\<rparr>,
           (snd st)\<lparr>BridgedLogicalWidth := width, BridgedLogicalHeight := height\<rparr>)
      else Inr st)"

text \<open>The first statement of \<^verbatim>\<open>controller.Update\<close>: the tick counter advances by the tick
  rate (the game's own update and the flush follow it).\<close>

definition advanceTick :: "state \<Rightarrow> state" where
  "advanceTick st = ((fst st)\<lparr>currentTick := currentTick (fst st) + tickRate (fst st)\<rparr>, snd st)"

text \<open>The zero values of the controller and of the package variables.\<close>

definition zeroController :: controller where
  "zeroController =
     \<lparr>logicalWidth = 0, logicalHeight = 0, hiResWidth = 0, hiResHeight = 0,
      inDraw = False, redrawManaged = False, needsRedraw = False,
      stretchingEnabled = False, keepAspectRatio = False, dynamicScaling = False,
      bestFitRenderSize = (Fin 0, Fin 0), bestFitContextSize = (Fin 0, Fin 0),
      lastFlushCoordinatesTick = 0, cameraArea = \<lparr>MinPt = (0, 0), MaxPt = (0, 0)\<rparr>,
      tracker = None, trackerCurrentX = Fin 0, trackerCurrentY = Fin 0,
      trackerTargetX = Fin 0, trackerTargetY = Fin 0,
      trackerPrevSpeedX = Fin 0, trackerPrevSpeedY = Fin 0,
      zoomer = None, zoomCurrent = Fin 0, zoomTarget = Fin 0,
      shakerChannels = \<lparr>backing = [], len = 0\<rparr>, shakerOffsetX = Fin 0, shakerOffsetY = Fin 0,
      currentTick = 0, tickRate = 0\<rparr>"

definition zeroGlobals :: globals where
  "zeroGlobals =
     \<lparr>defaultZoomer = None, defaultTracker = None, defaultShaker = None,
      CurrentZoom = Fin 0, BridgedCameraOrigin = (0, 0),
      BridgedLogicalWidth = 0, BridgedLogicalHeight = 0\<rparr>"

text \<open>
  Modelled from the spec: \<^verbatim>\<open>tickSetRate\<close> is not among the sources. The spec describes the
  tick rate as the "integer tick-rate multiplier (ticks consumed per update call)";
  \<^verbatim>\<open>tickSetRate(rate)\<close> stores it in the controller.
\<close>

definition tickSetRate :: "64 word \<Rightarrow> state \<Rightarrow> state" where
  "tickSetRate rate st = ((fst st)\<lparr>tickRate := rate\<rparr>, snd st)"

text \<open>The package's \<^verbatim>\<open>init\<close> function.\<close>

definition init :: "platform \<Rightarrow> panic + state" where
  "init p =
     bindE (cameraZoomReset p (Fin 1) (zeroController, zeroGlobals)) (\<lambda>st.
       let st1 = tickSetRate 1 st in
       Inr ((fst st1)\<lparr>shakerChannels := make_slice zeroChannel 1,
                       lastFlushCoordinatesTick := 0xFFFFFFFFFFFFFFFF,
                       bestFitRenderSize := (Fin 180, Fin 180),
                       bestFitContextSize := (Fin 1000, Fin 1000),
                       needsRedraw := True\<rparr>, snd st1))"

text \<open>The public accessors of the camera that take at most one channel; \<^verbatim>\<open>pkgController\<close>
  is the controller of the state. \<^verbatim>\<open>GetShaker\<close> calls \<^verbatim>\<open>cameraGetShaker()\<close> without
  arguments.\<close>

definition AccessorCamera_GetShaker :: "Channel list \<Rightarrow> state \<Rightarrow> panic + Shaker option" where
  "AccessorCamera_GetShaker channel st = cameraGetShaker [] (fst st)"

definition AccessorCamera_SetShaker ::
  "platform \<Rightarrow> Shaker option \<Rightarrow> Channel list \<Rightarrow> state \<Rightarrow> panic + state" where
  "AccessorCamera_SetShaker p s channel st = cameraSetShaker p s channel st"

definition AccessorCamera_IsShaking :: "Channel list \<Rightarrow> state \<Rightarrow> panic + bool" where
  "AccessorCamera_IsShaking channel st = cameraIsShaking channel (fst st)"


section \<open>Notions used to state the properties\<close>


text \<open>The shape of the channel bank: a valid slice with at least one channel, whose
  last channel, when it is not channel 0, has a shaker.\<close>

definition bankInv :: "shakerChannel slice \<Rightarrow> bool" where
  "bankInv b =
     (len b \<le> cap b \<and> 1 \<le> len b
      \<and> (1 < len b \<longrightarrow> shaker (backing b ! (len b - 1)) \<noteq> None))"

text \<open>
  The states of the package: the one \<^verbatim>\<open>init\<close> leaves, and those reached from it by calls
  of the camera functions that return, by the advance of the tick counter and by entering
  or leaving the draw stage.
\<close>

inductive reachable :: "platform \<Rightarrow> state \<Rightarrow> bool" for p :: platform where
  r_init: "init p = Inr st \<Longrightarrow> reachable p st"
| r_SetShaker: "reachable p st \<Longrightarrow> cameraSetShaker p s chs st = Inr st' \<Longrightarrow> reachable p st'"
| r_StartShake: "reachable p st \<Longrightarrow> cameraStartShake f chs st = Inr st' \<Longrightarrow> reachable p st'"
| r_EndShake: "reachable p st \<Longrightarrow> cameraEndShake f chs st = Inr st' \<Longrightarrow> reachable p st'"
| r_TriggerShake:
    "reachable p st \<Longrightarrow> cameraTriggerShake f d fo chs st = Inr st' \<Longrightarrow> reachable p st'"
| r_Flush: "reachable p st \<Longrightarrow> cameraFlushCoordinates p st = Inr st' \<Longrightarrow> reachable p st'"
| r_Tick: "reachable p st \<Longrightarrow> reachable p (advanceTick st)"
| r_Notify: "reachable p st \<Longrightarrow> cameraNotifyCoordinates x y st = Inr st' \<Longrightarrow> reachable p st'"
| r_SetTracker: "reachable p st \<Longrightarrow> cameraSetTracker t st = Inr st' \<Longrightarrow> reachable p st'"
| r_SetZoomer: "reachable p st \<Longrightarrow> cameraSetZoomer z st = Inr st' \<Longrightarrow> reachable p st'"
| r_Zoom: "reachable p st \<Longrightarrow> cameraZoom x st = Inr st' \<Longrightarrow> reachable p st'"
| r_ZoomReset: "reachable p st \<Longrightarrow> cameraZoomReset p x st = Inr st' \<Longrightarrow> reachable p st'"
| r_SetResolution: "reachable p st \<Longrightarrow> setResolution p w h st = Inr st' \<Longrightarrow> reachable p st'"
| r_Draw: "reachable p st \<Longrightarrow> reachable p ((fst st)\<lparr>inDraw := b\<rparr>, snd st)"


section \<open>Concrete strategies and states used in the examples\<close>

text \<open>A strategy that never moves the camera.\<close>

primcorec stillShaker :: Shaker where
  "GetShakeOffsets stillShaker = (\<lambda>level. ((Fin 0, Fin 0), stillShaker))"

text \<open>A zoomer that answers every update with the same change; with change 0 it holds
  the zoom where it is.\<close>

primcorec constZoomer :: "float64 \<Rightarrow> Zoomer" where
  "zoomerUpdate (constZoomer change) = (\<lambda>current target. (change, constZoomer change))"
| "zoomerReset (constZoomer change) = constZoomer change"

text \<open>An environment for the examples. The three default strategies, whose code is not
  available, are replaced by the trivial ones; undefined conversions give the smallest
  64-bit integer and a full array doubles.\<close>

definition examplePlatform :: platform where
  "examplePlatform =
     \<lparr>floatToInt = (\<lambda>x. - (2 ^ 63)), growCap = (\<lambda>c n. 2 * c), tps = 60,
      randomShaker = stillShaker, quadraticZoomer = constZoomer (Fin 0), springTailer = Frozen\<rparr>"

text \<open>Channel 0 after \<^verbatim>\<open>Start(10)\<close> and five updates at tick rate 1: half way through
  its fade-in.\<close>

definition midFadeIn :: shakerChannel where
  "midFadeIn = fst (runCalls stillShaker
     [CallStart 10, CallUpdate 0 1, CallUpdate 0 1, CallUpdate 0 1, CallUpdate 0 1, CallUpdate 0 1]
     (zeroChannel, None))"



text \<open>The package state after \<^verbatim>\<open>init\<close>; the same after one flush; and after
  \<^verbatim>\<open>SetShaker(s, 2)\<close>, which makes a bank of three channels.\<close>

definition initState :: state where
  "initState = projr (init examplePlatform)"

definition flushedOnce :: state where
  "flushedOnce = projr (cameraFlushCoordinates examplePlatform initState)"

definition threeChannels :: state where
  "threeChannels = projr (cameraSetShaker examplePlatform (Some stillShaker) [2] initState)"


section \<open>Properties of the shaker channel\<close>

lemma ratio_in_unit:
  fixes a b :: TicksDuration
  assumes "a < b"
  shows "0 \<le> float_of_ticks a / float_of_ticks b" and "float_of_ticks a / float_of_ticks b < 1"
proof -
  from assms have "unat a < unat b" by (simp add: word_less_nat_alt)
  then have "0 \<le> real (unat a) / real (unat b) \<and> real (unat a) / real (unat b) < 1"
    by (simp del: of_nat_unat)
  then show "0 \<le> float_of_ticks a / float_of_ticks b"
    and "float_of_ticks a / float_of_ticks b < 1"
    unfolding float_of_ticks_def by blast+
qed

lemma Activity_bounds: "0 \<le> Activity self \<and> Activity self \<le> 1"
  unfolding Activity_def Let_def
  using ratio_in_unit [of "elapsed self" "fadeIn self"]
        ratio_in_unit [of "elapsed self - fadeIn self - duration self" "fadeOut self"]
  by (auto simp: not_le)

text \<open>
  Claim C1. In every channel state reached from any channel state (a fresh channel
  included) by any sequence of Start, End, Trigger and Update calls, with any tick
  durations, any channel index, any tick rate and any strategy, Activity() lies in the
  closed interval [0,1].
\<close>

theorem C1_activity_in_unit_interval:
  "0 \<le> Activity (fst (runCalls newRandom calls (self, dflt)))
   \<and> Activity (fst (runCalls newRandom calls (self, dflt))) \<le> 1"
  by (rule Activity_bounds)

text \<open>
  Claim C3. On a fresh channel, Start(10) followed by five updates at tick rate 1 gives
  activity 1/2 with 5 ticks elapsed; a second call Start(20) moves the channel to 10
  elapsed ticks of the new fade-in, so Activity() is exactly 1/2 right after it (the stale
  elapsed value would give 5/20).
\<close>

theorem C3_restart_keeps_activity:
  "let ch5 = fst (runCalls newRandom
                 [CallUpdate 0 1, CallUpdate 0 1, CallUpdate 0 1, CallUpdate 0 1, CallUpdate 0 1]
                 (Start 10 (newChannel sh), dflt))
   in Activity ch5 = 1/2 \<and> elapsed ch5 = 5
      \<and> Activity (Start 20 ch5) = 1/2 \<and> elapsed (Start 20 ch5) = 10"
  by (cases sh)
     (simp_all add: Let_def newChannel_def zeroChannel_def Start_def IsFadingIn_def Activity_def
       Update_def UpdateWith_def IsShaking_def maxUint32_def ticks_of_float_def float_of_ticks_def
       split: option.splits)

lemma idle_Update:
  assumes "elapsed (fst st) = 0" "fadeIn (fst st) = 0" "duration (fst st) = 0" "fadeOut (fst st) = 0"
  shows "elapsed (fst (Update newRandom index rate st)) = 0
       \<and> fadeIn (fst (Update newRandom index rate st)) = 0
       \<and> duration (fst (Update newRandom index rate st)) = 0
       \<and> fadeOut (fst (Update newRandom index rate st)) = 0"
  using assms
  by (simp add: Update_def UpdateWith_def IsShaking_def Let_def split: option.splits)

lemma Trigger_zero:
  "elapsed (Trigger 0 0 0 self) = 0 \<and> fadeIn (Trigger 0 0 0 self) = 0
   \<and> duration (Trigger 0 0 0 self) = 0 \<and> fadeOut (Trigger 0 0 0 self) = 0"
  by (auto simp: Trigger_def Start_def IsFadingIn_def Let_def ticks_of_float_def float_of_ticks_def)

lemma idle_runUpdates:
  assumes "elapsed (fst st) = 0 \<and> fadeIn (fst st) = 0 \<and> duration (fst st) = 0 \<and> fadeOut (fst st) = 0"
  shows "\<not> IsShaking (fst (runCalls newRandom (map (\<lambda>(index, rate). CallUpdate index rate) us) st))"
  using assms
proof (induction us arbitrary: st)
  case Nil
  then show ?case by (simp add: IsShaking_def)
next
  case (Cons u us)
  obtain index rate where u: "u = (index, rate)" by (cases u)
  have "elapsed (fst (Update newRandom index rate st)) = 0
       \<and> fadeIn (fst (Update newRandom index rate st)) = 0
       \<and> duration (fst (Update newRandom index rate st)) = 0
       \<and> fadeOut (fst (Update newRandom index rate st)) = 0"
    using Cons.prems by (intro idle_Update) simp_all
  then show ?case using Cons.IH [of "Update newRandom index rate st"] by (simp add: u)
qed

text \<open>
  Claim C8. On every channel, right after Trigger(0, 0, 0) and after any number of later
  Update calls (any channel index, any tick rate, any strategy), IsShaking() is false.
\<close>

theorem C8_trigger_zero_never_shakes:
  "\<not> IsShaking (fst (runCalls newRandom (map (\<lambda>(index, rate). CallUpdate index rate) us)
        (Trigger 0 0 0 self, dflt)))"
  by (rule idle_runUpdates) (simp add: Trigger_zero)



















lemma midFadeIn_eq:
  "midFadeIn = \<lparr>shaker = None, elapsed = 5, fadeIn = 10, duration = maxUint32, fadeOut = 0,
     offsetX = Fin 0, offsetY = Fin 0, wasActive = True\<rparr>"
  by (simp add: midFadeIn_def Let_def zeroChannel_def Start_def IsFadingIn_def Activity_def
       Update_def UpdateWith_def IsShaking_def maxUint32_def ticks_of_float_def float_of_ticks_def)



text \<open>
  Not part of the amended claim: End issued during the fade-in. The subtraction
  \<^verbatim>\<open>elapsed - fadeIn\<close> wraps around, the stored duration is huge, and the activity jumps
  from 1/2 to 1.
\<close>

lemma End_during_fade_in_jumps:
  "Activity midFadeIn = 1/2 \<and> Activity (End 10 midFadeIn) = 1"
  by (simp add: midFadeIn_eq End_def IsFadingOut_def Activity_def Let_def maxUint32_def
       ticks_of_float_def float_of_ticks_def)




section \<open>The state after init\<close>

lemma init_eq:
  "init p = Inr
     (zeroController\<lparr>zoomCurrent := Fin 1, zoomTarget := Fin 1, tickRate := 1,
        shakerChannels := \<lparr>backing = [zeroChannel], len = 1\<rparr>,
        lastFlushCoordinatesTick := 0xFFFFFFFFFFFFFFFF,
        bestFitRenderSize := (Fin 180, Fin 180),
        bestFitContextSize := (Fin 1000, Fin 1000),
        needsRedraw := True\<rparr>,
      zeroGlobals\<lparr>CurrentZoom := Fin 1,
        defaultZoomer := Some (zoomerReset (zoomerReset (quadraticZoomer p)))\<rparr>)"
  by (simp add: init_def cameraZoomReset_def bindE_def zeroController_def zeroGlobals_def
        cameraGetInternalZoomer_def putInternalZoomer_def tickSetRate_def make_slice_def Let_def)

lemma init_example:
  "init examplePlatform = Inr
     (zeroController\<lparr>zoomCurrent := Fin 1, zoomTarget := Fin 1, tickRate := 1,
        shakerChannels := \<lparr>backing = [zeroChannel], len = 1\<rparr>,
        lastFlushCoordinatesTick := 0xFFFFFFFFFFFFFFFF,
        bestFitRenderSize := (Fin 180, Fin 180),
        bestFitContextSize := (Fin 1000, Fin 1000),
        needsRedraw := True\<rparr>,
      zeroGlobals\<lparr>CurrentZoom := Fin 1, defaultZoomer := Some (constZoomer (Fin 0))\<rparr>)"
  by (simp add: init_eq examplePlatform_def)

lemma initState_eq:
  "initState =
     (zeroController\<lparr>zoomCurrent := Fin 1, zoomTarget := Fin 1, tickRate := 1,
        shakerChannels := \<lparr>backing = [zeroChannel], len = 1\<rparr>,
        lastFlushCoordinatesTick := 0xFFFFFFFFFFFFFFFF,
        bestFitRenderSize := (Fin 180, Fin 180),
        bestFitContextSize := (Fin 1000, Fin 1000),
        needsRedraw := True\<rparr>,
      zeroGlobals\<lparr>CurrentZoom := Fin 1, defaultZoomer := Some (constZoomer (Fin 0))\<rparr>)"
  by (simp add: initState_def init_example)


section \<open>Properties of the best-fit scale\<close>





section \<open>Properties of the zoom update\<close>

lemma putInternalZoomer_fields [simp]:
  "zoomCurrent (fst (putInternalZoomer z st)) = zoomCurrent (fst st)"
  "lastFlushCoordinatesTick (fst (putInternalZoomer z st)) = lastFlushCoordinatesTick (fst st)"
  "currentTick (fst (putInternalZoomer z st)) = currentTick (fst st)"
  "redrawManaged (fst (putInternalZoomer z st)) = redrawManaged (fst st)"
  by (simp_all add: putInternalZoomer_def split: option.splits)



lemma updateZoom_Inr:
  assumes "updateZoom p st = Inr st'"
  shows "\<not> f_lt (zoomCurrent (fst st')) (Fin 0.005) \<and> \<not> f_gt (zoomCurrent (fst st')) (Fin 500)
       \<and> CurrentZoom (snd st') = zoomCurrent (fst st')
       \<and> (\<exists>change. \<not> IsNaN change \<and> zoomCurrent (fst st') = f_add (zoomCurrent (fst st)) change)
       \<and> lastFlushCoordinatesTick (fst st') = lastFlushCoordinatesTick (fst st)
       \<and> currentTick (fst st') = currentTick (fst st)"
  using assms by (auto simp: updateZoom_def Let_def split: if_splits)







section \<open>Properties of the coordinate flush\<close>

lemma updateTracking_ticks:
  "lastFlushCoordinatesTick (fst (updateTracking p st)) = lastFlushCoordinatesTick (fst st)"
  "currentTick (fst (updateTracking p st)) = currentTick (fst st)"
  by (simp_all add: updateTracking_def Let_def split: option.splits)

lemma updateShake_ticks:
  "lastFlushCoordinatesTick (fst (updateShake p st)) = lastFlushCoordinatesTick (fst st)"
  "currentTick (fst (updateShake p st)) = currentTick (fst st)"
  by (simp_all add: updateShake_def Let_def)

lemma updateCameraArea_ticks:
  assumes "updateCameraArea p st = Inr st'"
  shows "lastFlushCoordinatesTick (fst st') = lastFlushCoordinatesTick (fst st)"
    and "currentTick (fst st') = currentTick (fst st)"
  using assms
  by (auto simp: updateCameraArea_def bindE_def Let_def split: sum.splits prod.splits)

lemma flush_marks_tick:
  assumes "cameraFlushCoordinates p st = Inr st'"
  shows "lastFlushCoordinatesTick (fst st') = currentTick (fst st')"
proof (cases "lastFlushCoordinatesTick (fst st) = currentTick (fst st)")
  case True
  with assms show ?thesis by (simp add: cameraFlushCoordinates_def)
next
  case False
  let ?st0 = "((fst st)\<lparr>lastFlushCoordinatesTick := currentTick (fst st)\<rparr>, snd st)"
  from assms False obtain st1 where
    z: "updateZoom p ?st0 = Inr st1"
    and a: "updateCameraArea p (updateShake p (updateTracking p st1)) = Inr st'"
    by (auto simp: cameraFlushCoordinates_def bindE_def split: sum.splits)
  have "lastFlushCoordinatesTick (fst st1) = currentTick (fst st)"
    and "currentTick (fst st1) = currentTick (fst st)"
    using updateZoom_Inr [OF z] by simp_all
  then show ?thesis
    using updateCameraArea_ticks [OF a]
    by (simp add: updateShake_ticks updateTracking_ticks)
qed

text \<open>
  Claim C4. In every state of the controller and of the package variables, once a call
  of cameraFlushCoordinates has returned, a second call in the same tick returns at the
  guard and changes nothing: the state after it is the state before it, and so are the
  integer camera area and the float bounds computed from it.
\<close>

theorem C4_second_flush_changes_nothing:
  assumes "cameraFlushCoordinates p st = Inr st'"
  shows "cameraFlushCoordinates p st' = Inr st'
       \<and> map_sum id (cameraArea \<circ> fst) (cameraFlushCoordinates p st') = Inr (cameraArea (fst st'))
       \<and> map_sum id (cameraAreaF64 p \<circ> fst) (cameraFlushCoordinates p st')
           = Inr (cameraAreaF64 p (fst st'))"
  using flush_marks_tick [OF assms] by (simp add: cameraFlushCoordinates_def)

lemma first_flush_example: "\<exists>st'. cameraFlushCoordinates examplePlatform initState = Inr st'"
  by (simp add: initState_eq examplePlatform_def bindE_def cameraFlushCoordinates_def
        updateZoom_def cameraGetInternalZoomer_def putInternalZoomer_def updateTracking_def
        updateShake_def updateCameraArea_def cameraAreaF64_def zeroController_def
        zeroGlobals_def zeroChannel_def elems_def Update_def UpdateWith_def IsShaking_def
        float_of_int_def int_of_float_def f_sub_def f_gt_def f_ne_def Rect_def Let_def)

theorem C4_second_flush_changes_nothing_witness:
  "cameraFlushCoordinates examplePlatform initState = Inr flushedOnce
   \<and> cameraFlushCoordinates examplePlatform flushedOnce = Inr flushedOnce"
proof -
  from first_flush_example
  have first: "cameraFlushCoordinates examplePlatform initState = Inr flushedOnce"
    by (auto simp: flushedOnce_def)
  from C4_second_flush_changes_nothing [OF first] first show ?thesis by simp
qed


section \<open>Scenario A\<close>

text \<open>
  Claim C6. From the state left by init: the resolution is set to 128 x 72 (stretching
  is disabled and no shake is active in that state), the Instant tracker is bound, and
  the zoomer, bound or default, answers the update at current zoom 1 and target 1 with
  the change 0, so the zoom stays at 1. Then NotifyCoordinates(10, 0) followed by one
  flush gives the integer camera area with corners (-54, -36) and (74, 36).
\<close>

theorem C6_scenario_A:
  assumes "fst (zoomerUpdate
             (case zo of Some z \<Rightarrow> z | None \<Rightarrow> zoomerReset (zoomerReset (quadraticZoomer p)))
             (Fin 1) (Fin 1)) = Fin 0"
  shows "map_sum id (cameraArea \<circ> fst)
     (bindE (bindE (bindE (bindE (bindE (init p)
        (setResolution p 128 72))
        (cameraSetTracker (Some Instant)))
        (cameraSetZoomer zo))
        (cameraNotifyCoordinates (Fin 10) (Fin 0)))
        (cameraFlushCoordinates p))
     = Inr \<lparr>MinPt = (- 54, - 36), MaxPt = (74, 36)\<rparr>"
  using assms
  by (cases zo)
     (simp_all add: init_eq bindE_def setResolution_def cameraSetTracker_def cameraSetZoomer_def
        cameraNotifyCoordinates_def cameraFlushCoordinates_def updateZoom_def
        cameraGetInternalZoomer_def putInternalZoomer_def updateTracking_def updateShake_def
        updateCameraArea_def cameraAreaF64_def zeroController_def zeroGlobals_def
        zeroChannel_def elems_def Update_def UpdateWith_def IsShaking_def
        float_of_int_def int_of_float_def f_sub_def f_gt_def f_ne_def Rect_def Let_def)

theorem C6_scenario_A_witness:
  "map_sum id (cameraArea \<circ> fst)
     (bindE (bindE (bindE (bindE (bindE (init examplePlatform)
        (setResolution examplePlatform 128 72))
        (cameraSetTracker (Some Instant)))
        (cameraSetZoomer None))
        (cameraNotifyCoordinates (Fin 10) (Fin 0)))
        (cameraFlushCoordinates examplePlatform))
     = Inr \<lparr>MinPt = (- 54, - 36), MaxPt = (74, 36)\<rparr>"
proof -
  have h: "fst (zoomerUpdate
             (case None of Some z \<Rightarrow> z
              | None \<Rightarrow> zoomerReset (zoomerReset (quadraticZoomer examplePlatform)))
             (Fin 1) (Fin 1)) = Fin 0"
    by (simp add: examplePlatform_def)
  show ?thesis by (rule C6_scenario_A [OF h])
qed


section \<open>Functions that take at most one channel\<close>

text \<open>The three controller functions panic when they are given more than one channel.\<close>

lemma many_channels_panic:
  assumes "length channels > 1"
  shows "cameraGetShaker channels self
           = Inl (Panic ''can't GetShaker for multiple shaker channels at once'')"
    and "cameraIsShaking channels self
           = Inl (Panic ''IsShaking accepts at most one shaker channel as argument'')"
    and "\<not> inDraw (fst st) \<Longrightarrow> cameraSetShaker p s channels st
           = Inl (Panic ''can't pass multiple shaker channels to SetShaker'')"
    and "inDraw (fst st) \<Longrightarrow> cameraSetShaker p s channels st
           = Inl (Panic ''can't SetShaker during draw stage'')"
  using assms
  by (auto simp: cameraGetShaker_def cameraIsShaking_def cameraSetShaker_def Let_def)

text \<open>
  Claim C9 holds for SetShaker and IsShaking and at the level of the controller, but not
  for the public GetShaker: it drops its arguments, so with the two channels 1 and 2 it
  returns the shaker of channel 0 (none after init) instead of panicking, while the
  other two accessors panic on the same arguments.
\<close>

theorem C9_GetShaker_ignores_its_channels:
  "bindE (init p) (AccessorCamera_GetShaker [1, 2]) = Inr None
   \<and> bindE (init p) (AccessorCamera_IsShaking [1, 2])
       = Inl (Panic ''IsShaking accepts at most one shaker channel as argument'')
   \<and> bindE (init p) (AccessorCamera_SetShaker p s [1, 2])
       = Inl (Panic ''can't pass multiple shaker channels to SetShaker'')"
  by (simp add: init_eq bindE_def AccessorCamera_GetShaker_def AccessorCamera_IsShaking_def
        AccessorCamera_SetShaker_def cameraGetShaker_def cameraIsShaking_def cameraSetShaker_def
        index_at_def zeroController_def zeroChannel_def Let_def)


section \<open>Properties of the channel bank\<close>

lemma append_slice_wf:
  assumes "len s \<le> cap s"
  shows "len (append_slice grow z s xs) = len s + length xs"
    and "len (append_slice grow z s xs) \<le> cap (append_slice grow z s xs)"
  using assms by (auto simp: append_slice_def cap_def Let_def)

lemma setAt_wf:
  assumes "len s \<le> cap s" "0 \<le> index" "setAt grow z s x index = Inr s'"
  shows "len s' \<le> cap s'" and "len s \<le> len s'" and "nat index < len s'"
proof -
  consider "index < int (len s)"
    | "index = int (len s)"
    | "int (len s) < index" "index < int (cap s)"
    | "int (len s) < index" "int (cap s) \<le> index" "index + 1 - int (cap s) = 1"
    | "int (len s) < index" "int (cap s) \<le> index" "index + 1 - int (cap s) \<noteq> 1"
    by linarith
  then have "len s' \<le> cap s' \<and> len s \<le> len s' \<and> nat index < len s'"
  proof cases
    case 1
    with assms show ?thesis
      by (auto simp: setAt_def index_store_def cap_def split: if_splits)
  next
    case 2
    with assms show ?thesis
      using append_slice_wf [OF assms(1), of grow z "[x]"]
      by (auto simp: setAt_def split: if_splits)
  next
    case 3
    with assms show ?thesis
      by (auto simp: setAt_def reslice_def index_store_def bindE_def cap_def split: if_splits)
  next
    case 4
    let ?s1 = "s\<lparr>len := cap s\<rparr>"
    have wf1: "len ?s1 \<le> cap ?s1" by (simp add: cap_def)
    from 4 assms have "s' = append_slice grow z ?s1 [x]"
      by (auto simp: setAt_def reslice_def bindE_def Let_def cap_def split: if_splits)
    with append_slice_wf [OF wf1, of grow z "[x]"] 4 assms(1) show ?thesis
      by (auto simp: cap_def)
  next
    case 5
    let ?s1 = "s\<lparr>len := cap s\<rparr>"
    let ?xs = "replicate (nat (index + 1 - int (cap s))) z"
    have wf1: "len ?s1 \<le> cap ?s1" by (simp add: cap_def)
    from 5 assms have st: "index_store (append_slice grow z ?s1 ?xs) index x = Inr s'"
      by (auto simp: setAt_def reslice_def bindE_def Let_def cap_def split: if_splits)
    have l: "len (append_slice grow z ?s1 ?xs) = nat index + 1"
      using append_slice_wf(1) [OF wf1, of grow z ?xs] 5 assms(2) by (simp add: cap_def)
    from st l append_slice_wf(2) [OF wf1, of grow z ?xs] 5 assms(1) show ?thesis
      by (auto simp: index_store_def cap_def split: if_splits)
  qed
  then show "len s' \<le> cap s'" and "len s \<le> len s'" and "nat index < len s'" by blast+
qed

lemma compactLoop_spec:
  "compactLoop chans n \<le> n
   \<and> (compactLoop chans n < n \<longrightarrow> shaker (chans ! (n - compactLoop chans n)) \<noteq> None)"
  by (induction n) auto

lemma compacted_inv:
  assumes "len b \<le> cap b" "1 \<le> len b"
  shows "bankInv (b\<lparr>len := len b - compactLoop (backing b) (len b - 1)\<rparr>)"
  using assms compactLoop_spec [of "backing b" "len b - 1"]
  by (auto simp: bankInv_def cap_def)

lemma cameraSetShaker_inv:
  assumes "bankInv (shakerChannels (fst st))" "cameraSetShaker p s chs st = Inr st'"
  shows "bankInv (shakerChannels (fst st'))"
proof -
  let ?b = "shakerChannels (fst st)"
  from assms(2) have nd: "\<not> inDraw (fst st)" and short: "\<not> length chs > 1"
    by (auto simp: cameraSetShaker_def Let_def split: if_splits)
  show ?thesis
  proof (cases chs)
    case Nil
    with assms nd show ?thesis
      by (auto simp: cameraSetShaker_def Let_def bindE_def index_at_def index_store_def
            bankInv_def cap_def split: if_splits)
  next
    case (Cons ch rest)
    with short have chs: "chs = [ch]" by simp
    let ?i = "int (unat ch)"
    show ?thesis
    proof (cases "s = None \<and> ?i \<ge> int (len ?b)")
      case True
      with assms nd chs show ?thesis by (auto simp: cameraSetShaker_def Let_def)
    next
      case False
      with assms(2) nd chs obtain b1 where
        sa: "setAt (growCap p) zeroChannel ?b (newChannel s) ?i = Inr b1"
        and res: "shakerChannels (fst st') =
              (if compactLoop (backing b1) (len b1 - 1) > 0
               then b1\<lparr>len := len b1 - compactLoop (backing b1) (len b1 - 1)\<rparr> else b1)"
        using compactLoop_spec [of "backing b1" "len b1 - 1" for b1]
        by (auto simp: cameraSetShaker_def Let_def bindE_def reslice_def
              split: if_splits sum.splits)
      from assms(1) have wf: "len ?b \<le> cap ?b" and pos: "1 \<le> len ?b"
        by (simp_all add: bankInv_def)
      have wf1: "len b1 \<le> cap b1" and pos1: "1 \<le> len b1"
        using setAt_wf [OF wf _ sa] pos by simp_all
      have "b1\<lparr>len := len b1 - 0\<rparr> = b1" by simp
      with compacted_inv [OF wf1 pos1] res show ?thesis
        by (cases "compactLoop (backing b1) (len b1 - 1) > 0") auto
    qed
  qed
qed

lemma bankInv_shape:
  assumes "bankInv b" "len b' = len b" "length (backing b') = length (backing b)"
    and "\<And>i. i < len b \<Longrightarrow> (shaker (backing b' ! i) = None) = (shaker (backing b ! i) = None)"
  shows "bankInv b'"
  using assms by (auto simp: bankInv_def cap_def)

lemma shaker_Start [simp]: "shaker (Start f c) = shaker c"
  by (simp add: Start_def Let_def)

lemma shaker_End [simp]: "shaker (End f c) = shaker c"
  by (simp add: End_def Let_def)

lemma shaker_Trigger [simp]: "shaker (Trigger f d fo c) = shaker c"
  by (simp add: Trigger_def)

lemma onChannel_inv:
  assumes "\<And>c. shaker (m c) = shaker c" "bankInv (shakerChannels self)"
    "onChannel m ch self = Inr self'"
  shows "bankInv (shakerChannels self')"
proof -
  from assms(3) have i: "unat ch < len (shakerChannels self)"
    and b: "shakerChannels self' = (shakerChannels self)
              \<lparr>backing := (backing (shakerChannels self))
                 [unat ch := m (backing (shakerChannels self) ! unat ch)]\<rparr>"
    by (auto simp: onChannel_def bindE_def index_at_def index_store_def
          simp del: of_nat_unat split: if_splits)
  show ?thesis
  proof (rule bankInv_shape [OF assms(2)])
    fix i assume "i < len (shakerChannels self)"
    then show "(shaker (backing (shakerChannels self') ! i) = None)
             = (shaker (backing (shakerChannels self) ! i) = None)"
      using assms(2) by (cases "i = unat ch") (auto simp: b assms(1) bankInv_def cap_def)
  qed (simp_all add: b)
qed

lemma eachChannel_inv:
  assumes "\<And>c. shaker (m c) = shaker c" "bankInv (shakerChannels self)"
    "eachChannel msg m chs self = Inr self'"
  shows "bankInv (shakerChannels self')"
  using assms(2,3)
proof (induction chs arbitrary: self)
  case Nil
  then show ?case by simp
next
  case (Cons ch chs)
  from Cons.prems(2) obtain self1 where
    1: "onChannel m ch self = Inr self1" and 2: "eachChannel msg m chs self1 = Inr self'"
    by (auto simp: bindE_def split: if_splits sum.splits)
  from onChannel_inv [OF assms(1) Cons.prems(1) 1] 2 show ?case by (rule Cons.IH)
qed

lemma shake_calls_inv:
  assumes "bankInv (shakerChannels (fst st))"
  shows "cameraStartShake f chs st = Inr st' \<Longrightarrow> bankInv (shakerChannels (fst st'))"
    and "cameraEndShake f chs st = Inr st' \<Longrightarrow> bankInv (shakerChannels (fst st'))"
    and "cameraTriggerShake f d fo chs st = Inr st' \<Longrightarrow> bankInv (shakerChannels (fst st'))"
  using assms
  by (auto simp: cameraStartShake_def cameraEndShake_def cameraTriggerShake_def bindE_def
        split: if_splits sum.splits
        dest: onChannel_inv [rotated 2] eachChannel_inv [rotated 2])

lemma UpdateWith_shaker [simp]: "shaker (fst (UpdateWith sh rate c)) = shaker c"
  by (simp add: UpdateWith_def Let_def)

lemma Update_shaker_None:
  "(shaker (fst (Update rnd i rate (c, d))) = None) = (shaker c = None)"
  by (simp add: Update_def Let_def split: option.splits)

lemma updateShakeLoop_shape:
  "length (fst (updateShakeLoop rnd rate i cs d ox oy)) = length cs
   \<and> (\<forall>k < length cs.
         (shaker (fst (updateShakeLoop rnd rate i cs d ox oy) ! k) = None)
       = (shaker (cs ! k) = None))"
proof (induction cs arbitrary: i d ox oy)
  case Nil
  then show ?case by simp
next
  case (Cons c cs)
  show ?case
    using Cons.IH Update_shaker_None [of rnd i rate c d]
    by (auto simp: Let_def nth_Cons split: nat.splits)
qed

lemma updateShake_inv:
  assumes "bankInv (shakerChannels (fst st))"
  shows "bankInv (shakerChannels (fst (updateShake p st)))"
proof -
  let ?b = "shakerChannels (fst st)"
  let ?r = "updateShakeLoop (randomShaker p) (tickRate (fst st)) 0 (elems ?b)
              (defaultShaker (snd st)) (Fin 0) (Fin 0)"
  have b': "shakerChannels (fst (updateShake p st))
              = ?b\<lparr>backing := fst ?r @ drop (len ?b) (backing ?b)\<rparr>"
    by (simp add: updateShake_def Let_def)
  from assms have wf: "len ?b \<le> length (backing ?b)" by (simp add: bankInv_def cap_def)
  then have le: "length (elems ?b) = len ?b" by (simp add: elems_def)
  note sh = updateShakeLoop_shape [of "randomShaker p" "tickRate (fst st)" 0 "elems ?b"
              "defaultShaker (snd st)" "Fin 0" "Fin 0"]
  show ?thesis
  proof (rule bankInv_shape [OF assms])
    show "len (shakerChannels (fst (updateShake p st))) = len ?b" by (simp add: b')
    show "length (backing (shakerChannels (fst (updateShake p st)))) = length (backing ?b)"
      using sh wf le by (simp add: b')
    fix i assume "i < len ?b"
    then show "(shaker (backing (shakerChannels (fst (updateShake p st))) ! i) = None)
             = (shaker (backing ?b ! i) = None)"
      using sh le by (simp add: b' nth_append elems_def)
  qed
qed

lemma updateZoom_bank:
  "updateZoom p st = Inr st' \<Longrightarrow> shakerChannels (fst st') = shakerChannels (fst st)"
  by (auto simp: updateZoom_def putInternalZoomer_def Let_def split: if_splits option.splits)

lemma updateTracking_bank: "shakerChannels (fst (updateTracking p st)) = shakerChannels (fst st)"
  by (simp add: updateTracking_def Let_def split: option.splits)

lemma updateCameraArea_bank:
  "updateCameraArea p st = Inr st' \<Longrightarrow> shakerChannels (fst st') = shakerChannels (fst st)"
  by (auto simp: updateCameraArea_def bindE_def Let_def split: sum.splits prod.splits)

lemma flush_inv:
  assumes "bankInv (shakerChannels (fst st))" "cameraFlushCoordinates p st = Inr st'"
  shows "bankInv (shakerChannels (fst st'))"
proof (cases "lastFlushCoordinatesTick (fst st) = currentTick (fst st)")
  case True
  with assms show ?thesis by (simp add: cameraFlushCoordinates_def)
next
  case False
  let ?st0 = "((fst st)\<lparr>lastFlushCoordinatesTick := currentTick (fst st)\<rparr>, snd st)"
  from assms(2) False obtain st1 where
    z: "updateZoom p ?st0 = Inr st1"
    and a: "updateCameraArea p (updateShake p (updateTracking p st1)) = Inr st'"
    by (auto simp: cameraFlushCoordinates_def bindE_def split: sum.splits)
  have "bankInv (shakerChannels (fst (updateTracking p st1)))"
    using assms(1) updateZoom_bank [OF z] by (simp add: updateTracking_bank)
  then have "bankInv (shakerChannels (fst (updateShake p (updateTracking p st1))))"
    by (rule updateShake_inv)
  then show ?thesis using updateCameraArea_bank [OF a] by simp
qed

lemma init_inv: "init p = Inr st \<Longrightarrow> bankInv (shakerChannels (fst st))"
  by (auto simp: init_def bindE_def cameraZoomReset_def Let_def tickSetRate_def make_slice_def
        bankInv_def cap_def split: if_splits)

lemma other_calls_bank:
  "cameraNotifyCoordinates x y st = Inr st' \<Longrightarrow> shakerChannels (fst st') = shakerChannels (fst st)"
  "cameraSetTracker t st = Inr st' \<Longrightarrow> shakerChannels (fst st') = shakerChannels (fst st)"
  "cameraSetZoomer z st = Inr st' \<Longrightarrow> shakerChannels (fst st') = shakerChannels (fst st)"
  "cameraZoom x st = Inr st' \<Longrightarrow> shakerChannels (fst st') = shakerChannels (fst st)"
  "cameraZoomReset p x st = Inr st' \<Longrightarrow> shakerChannels (fst st') = shakerChannels (fst st)"
  "setResolution p w h st = Inr st' \<Longrightarrow> shakerChannels (fst st') = shakerChannels (fst st)"
  by (auto simp: cameraNotifyCoordinates_def cameraSetTracker_def cameraSetZoomer_def
        cameraZoom_def cameraZoomReset_def setResolution_def putInternalZoomer_def Let_def
        split: if_splits option.splits dest: updateCameraArea_bank)

lemma reachable_inv: "reachable p st \<Longrightarrow> bankInv (shakerChannels (fst st))"
proof (induction rule: reachable.induct)
  case (r_init st)
  then show ?case by (rule init_inv)
next
  case (r_SetShaker st s chs st')
  then show ?case by (auto intro: cameraSetShaker_inv)
next
  case (r_StartShake st f chs st')
  then show ?case by (auto intro: shake_calls_inv(1))
next
  case (r_EndShake st f chs st')
  then show ?case by (auto intro: shake_calls_inv(2))
next
  case (r_TriggerShake st f d fo chs st')
  then show ?case by (auto intro: shake_calls_inv(3))
next
  case (r_Flush st st')
  then show ?case by (auto intro: flush_inv)
next
  case (r_Tick st)
  then show ?case by (simp add: advanceTick_def)
next
  case (r_Draw st b)
  then show ?case by simp
qed (simp_all add: other_calls_bank)

lemma last_of_bank:
  assumes "bankInv b"
  shows "last (elems b) = backing b ! (len b - 1)"
proof -
  from assms have n: "len b \<le> length (backing b)" "1 \<le> len b"
    by (simp_all add: bankInv_def cap_def)
  then have "take (len b) (backing b) \<noteq> []" by auto
  then have "last (take (len b) (backing b))
           = take (len b) (backing b) ! (length (take (len b) (backing b)) - 1)"
    by (rule last_conv_nth)
  with n show ?thesis by (simp add: elems_def min_def)
qed

text \<open>
  Claim C10. In every state reached from init the bank holds at least one channel. After
  every cameraSetShaker call that returns in such a state, the bank still holds at least
  one channel (the compaction stops above channel 0) and, when its last channel is not
  channel 0, that channel has a shaker. And in any state, cameraSetShaker with a nil
  shaker for a channel at or beyond the length of the bank changes nothing: it returns
  the state as it was (during the draw stage it panics, as every call does then).
\<close>

theorem C10_channel_bank:
  "(reachable p st \<longrightarrow> 1 \<le> len (shakerChannels (fst st)))
   \<and> (reachable p st \<and> cameraSetShaker p s chs st = Inr st' \<longrightarrow>
        1 \<le> len (shakerChannels (fst st'))
        \<and> (1 < len (shakerChannels (fst st')) \<longrightarrow>
             shaker (last (elems (shakerChannels (fst st')))) \<noteq> None))
   \<and> (int (len (shakerChannels (fst st2))) \<le> int (unat ch) \<longrightarrow>
        cameraSetShaker p None [ch] st2
          = (if inDraw (fst st2) then Inl (Panic ''can't SetShaker during draw stage'')
             else Inr st2))"
proof -
  have a: "1 \<le> len (shakerChannels (fst st))" if "reachable p st"
    using reachable_inv [OF that] by (simp add: bankInv_def)
  have b: "1 \<le> len (shakerChannels (fst st'))
        \<and> (1 < len (shakerChannels (fst st')) \<longrightarrow>
             shaker (last (elems (shakerChannels (fst st')))) \<noteq> None)"
    if "reachable p st" "cameraSetShaker p s chs st = Inr st'"
  proof -
    have "bankInv (shakerChannels (fst st'))"
      using reachable_inv [OF that(1)] that(2) by (rule cameraSetShaker_inv)
    then show ?thesis using last_of_bank [of "shakerChannels (fst st')"]
      by (simp add: bankInv_def)
  qed
  have c: "cameraSetShaker p None [ch] st2
          = (if inDraw (fst st2) then Inl (Panic ''can't SetShaker during draw stage'')
             else Inr st2)"
    if "int (len (shakerChannels (fst st2))) \<le> int (unat ch)"
    using that by (simp add: cameraSetShaker_def Let_def del: of_nat_unat)
  from a b c show ?thesis by blast
qed

lemma init_initState: "init examplePlatform = Inr initState"
  by (simp add: initState_def init_example)

lemma setAt_beyond_example:
  "setAt (\<lambda>c n. 2 * c) z \<lparr>backing = [a], len = Suc 0\<rparr> x 2
     = Inr \<lparr>backing = [a, z, x], len = 3\<rparr>"
  by (simp add: setAt_def reslice_def index_store_def append_slice_def cap_def bindE_def
        Let_def numeral_2_eq_2 numeral_3_eq_3)

lemma setAt_inside_example:
  "setAt g z \<lparr>backing = [a, b, c], len = 3\<rparr> x 2 = Inr \<lparr>backing = [a, b, x], len = 3\<rparr>"
  by (simp add: setAt_def index_store_def numeral_2_eq_2)

lemma compactLoop_examples:
  "shaker c \<noteq> None \<Longrightarrow> compactLoop [a, b, c] 2 = 0"
  "shaker b = None \<Longrightarrow> shaker c = None \<Longrightarrow> compactLoop [a, b, c] 2 = 2"
  by (simp_all add: numeral_2_eq_2)

lemma threeChannels_call:
  "cameraSetShaker examplePlatform (Some stillShaker) [2] initState
     = Inr ((fst initState)\<lparr>shakerChannels :=
              \<lparr>backing = [zeroChannel, zeroChannel, newChannel (Some stillShaker)], len = 3\<rparr>\<rparr>,
            snd initState)"
proof -
  have "shakerChannels (fst initState) = \<lparr>backing = [zeroChannel], len = 1\<rparr>"
    and "\<not> inDraw (fst initState)"
    by (simp_all add: initState_eq zeroController_def)
  moreover have "shaker (newChannel (Some stillShaker)) \<noteq> None"
    by (simp add: newChannel_def)
  ultimately show ?thesis
    by (simp add: cameraSetShaker_def Let_def bindE_def examplePlatform_def
          setAt_beyond_example compactLoop_examples)
qed

lemma threeChannels_eq:
  "threeChannels = ((fst initState)\<lparr>shakerChannels :=
              \<lparr>backing = [zeroChannel, zeroChannel, newChannel (Some stillShaker)], len = 3\<rparr>\<rparr>,
            snd initState)"
  by (simp add: threeChannels_def threeChannels_call)

lemma unbind_call:
  "cameraSetShaker examplePlatform None [2] threeChannels
     = Inr ((fst initState)\<lparr>shakerChannels :=
              \<lparr>backing = [zeroChannel, zeroChannel, newChannel None], len = 1\<rparr>\<rparr>,
            snd initState)"
proof -
  have "\<not> inDraw (fst initState)" by (simp add: initState_eq zeroController_def)
  moreover have "shaker (newChannel None) = None" "shaker zeroChannel = None"
    by (simp_all add: newChannel_def zeroChannel_def)
  ultimately show ?thesis
    by (simp add: threeChannels_eq cameraSetShaker_def Let_def bindE_def reslice_def cap_def
          setAt_inside_example compactLoop_examples)
qed

theorem C10_channel_bank_witness:
  "1 \<le> len (shakerChannels (fst threeChannels))
   \<and> len (shakerChannels (fst (projr (cameraSetShaker examplePlatform None [2] threeChannels)))) = 1
   \<and> cameraSetShaker examplePlatform None [5] threeChannels = Inr threeChannels"
proof -
  have r: "reachable examplePlatform threeChannels"
    using r_SetShaker [OF r_init [OF init_initState] threeChannels_call]
    by (simp add: threeChannels_eq)
  have far: "int (len (shakerChannels (fst threeChannels))) \<le> int (unat (5 :: Channel))"
    by (simp add: threeChannels_eq)
  have nd: "\<not> inDraw (fst threeChannels)"
    by (simp add: threeChannels_eq initState_eq zeroController_def)
  show ?thesis
    using C10_channel_bank [of examplePlatform threeChannels None "[2]" _ threeChannels 5]
      r far nd unbind_call
    by simp
qed

end
